theory Spec2Isabelle
  imports Complex_Main
begin

section \<open>Shared data model\<close>

text \<open>
  Job and result status as the status endpoint reports it
  (\<^verbatim>\<open>AnalysisJob.status\<close> in \<^verbatim>\<open>lib/utils.ts\<close>).
\<close>

datatype job_status = pending | processing | completed | failed

text \<open>
  \<^verbatim>\<open>AnalysisResult\<close>. The element types of the evidence lists play no part in
  what follows and are kept as strings. The two optional fields are options; the type
  of the financial-impact object is declared outside the files at hand and is a type
  parameter (it is an object, hence truthy whenever it is present).
\<close>

record 'f analysis_result =
  jobId :: string
  status :: job_status
  problemSummary :: string
  quantEvidence :: "string list"
  qualEvidence :: "string list"
  actions :: "string list"
  abTests :: "string list"
  metrics :: "string list"
  financialImpact :: "'f option"
  suggestedQuestions :: "string list option"
  generatedAt :: string

section \<open>Perspective-based visibility (results page)\<close>

datatype perspective = pm | cfo | designer

text \<open>
  The six flags of the results page. \<^verbatim>\<open>result?.financialImpact && (...)\<close> is
  falsy when the result is null or the field is absent, and otherwise the value of the
  right operand; the page state \<^verbatim>\<open>result\<close> is an option.
\<close>

definition showFinancial :: "'f analysis_result option \<Rightarrow> perspective \<Rightarrow> bool" where
  "showFinancial result p =
     (case result of
        None \<Rightarrow> False
      | Some r \<Rightarrow> (case financialImpact r of
                    None \<Rightarrow> False
                  | Some _ \<Rightarrow> p = cfo \<or> p = pm))"

definition showABTests :: "perspective \<Rightarrow> bool" where
  "showABTests p = (p = pm \<or> p = designer)"

definition showMetrics :: "perspective \<Rightarrow> bool" where
  "showMetrics p = (p = pm \<or> p = cfo)"

definition showQuantEvidence :: "perspective \<Rightarrow> bool" where
  "showQuantEvidence p = (p = pm \<or> p = cfo)"

definition showQualEvidence :: "perspective \<Rightarrow> bool" where
  "showQualEvidence p = (p = pm \<or> p = designer)"

definition showRecommendedQuestions :: "'f analysis_result option \<Rightarrow> bool" where
  "showRecommendedQuestions result =
     (case result of
        None \<Rightarrow> False
      | Some r \<Rightarrow> (case suggestedQuestions r of
                    None \<Rightarrow> False
                  | Some qs \<Rightarrow> length qs > 0))"

text \<open>
  The cards rendered inside the report container once the page is ready, in the order of
  the JSX: unconditional cards are always in the list, the others are guarded by their
  flag.
\<close>

datatype section_kind =
  ProblemSummaryCard | FinancialImpactCard | QuantEvidenceCard | QualEvidenceCard
  | ActionsCard | ABTestCard | MetricsCard | RecommendedQuestions

definition reportSections :: "'f analysis_result \<Rightarrow> perspective \<Rightarrow> section_kind list" where
  "reportSections r p =
     [ProblemSummaryCard]
     @ (if showFinancial (Some r) p then [FinancialImpactCard] else [])
     @ (if showQuantEvidence p then [QuantEvidenceCard] else [])
     @ (if showQualEvidence p then [QualEvidenceCard] else [])
     @ [ActionsCard]
     @ (if showABTests p then [ABTestCard] else [])
     @ (if showMetrics p then [MetricsCard] else [])
     @ (if showRecommendedQuestions (Some r) then [RecommendedQuestions] else [])"

section \<open>Strings\<close>

text \<open>
  A \<^typ>\<open>char\<close> stands for one code unit below \<^verbatim>\<open>0x100\<close>. Among those,
  \<^verbatim>\<open>String.prototype.trim\<close> strips tab, line feed, vertical tab, form feed, carriage
  return, space and the no-break space from both ends.
\<close>

definition isWhiteSpace :: "char \<Rightarrow> bool" where
  "isWhiteSpace c = (of_char c \<in> {9, 10, 11, 12, 13, 32, 160 :: nat})"

definition trim :: "string \<Rightarrow> string" where
  "trim s = rev (dropWhile isWhiteSpace (rev (dropWhile isWhiteSpace s)))"

fun startsWith :: "string \<Rightarrow> string \<Rightarrow> bool" where
  "startsWith s [] = True"
| "startsWith [] (p # ps) = False"
| "startsWith (c # cs) (p # ps) = (c = p \<and> startsWith cs ps)"

text \<open>\<^verbatim>\<open>s.includes(sub)\<close>: \<^verbatim>\<open>sub\<close> occurs in \<^verbatim>\<open>s\<close> as a contiguous run.\<close>

fun includes_sub :: "string \<Rightarrow> string \<Rightarrow> bool" where
  "includes_sub [] sub = (sub = [])"
| "includes_sub (c # cs) sub = (startsWith (c # cs) sub \<or> includes_sub cs sub)"

section \<open>Status fetches (lib/api.ts)\<close>

text \<open>
  What a rejected promise carries: an \<^verbatim>\<open>ApiError\<close> (message, HTTP status), another
  \<^verbatim>\<open>Error\<close> (a network \<^verbatim>\<open>TypeError\<close>, a JSON \<^verbatim>\<open>SyntaxError\<close>), or a value that is no
  \<^verbatim>\<open>Error\<close> at all.
\<close>

datatype thrown = ApiError string nat | OtherError string | NonError

fun isError :: "thrown \<Rightarrow> bool" where
  "isError (ApiError m st) = True"
| "isError (OtherError m) = True"
| "isError NonError = False"

fun message_of :: "thrown \<Rightarrow> string" where
  "message_of (ApiError m st) = m"
| "message_of (OtherError m) = m"
| "message_of NonError = []"

text \<open>
  The way one call of \<^verbatim>\<open>getResults(jobId)\<close> settles: it returns the parsed body, or it
  throws. The network decides which, so the outcome is an input of the model.
\<close>

datatype 'f fetch_outcome = Returned "'f analysis_result" | Thrown thrown

subsection \<open>pollForResults\<close>

record 'f poll_run =
  outcome :: "thrown + 'f analysis_result"
  fetchCount :: nat
  delays :: "nat list"

text \<open>
  The test of the \<^verbatim>\<open>catch\<close> block: an \<^verbatim>\<open>ApiError\<close> whose status is not 202 is thrown
  again, everything else is swallowed and the loop goes on.
\<close>

fun rethrown :: "thrown \<Rightarrow> bool" where
  "rethrown (ApiError m st) = (st \<noteq> 202)"
| "rethrown _ = False"

definition afterDelay :: "nat \<Rightarrow> 'f poll_run \<Rightarrow> 'f poll_run" where
  "afterDelay intervalMs r =
     r\<lparr>fetchCount := Suc (fetchCount r), delays := intervalMs # delays r\<rparr>"

definition stopWith :: "thrown + 'f analysis_result \<Rightarrow> 'f poll_run" where
  "stopWith v = \<lparr>outcome = v, fetchCount = 1, delays = []\<rparr>"

text \<open>
  The \<^verbatim>\<open>for\<close> loop from a given value of \<^verbatim>\<open>attempt\<close>, for a call without the optional
  progress callback. \<^verbatim>\<open>getResults k\<close> is how the fetch of attempt \<^verbatim>\<open>k\<close> settles. The run
  records the number of fetches issued and the delays slept, in order. A body with status
  failed raises the error inside the \<^verbatim>\<open>try\<close> block, so it passes the test of the
  \<^verbatim>\<open>catch\<close> block like every other throw.
\<close>

function pollForResults_from ::
  "(nat \<Rightarrow> 'f fetch_outcome) \<Rightarrow> nat \<Rightarrow> nat \<Rightarrow> nat \<Rightarrow> 'f poll_run" where
  "pollForResults_from getResults maxAttempts intervalMs attempt =
     (if attempt < maxAttempts then
        (case getResults attempt of
           Returned r \<Rightarrow>
             if status r = completed then stopWith (Inr r)
             else if status r = failed
                     \<and> rethrown (ApiError ''Analysis failed on the server.'' 500)
               then stopWith (Inl (ApiError ''Analysis failed on the server.'' 500))
             else afterDelay intervalMs
                    (pollForResults_from getResults maxAttempts intervalMs (Suc attempt))
         | Thrown err \<Rightarrow>
             if rethrown err then stopWith (Inl err)
             else afterDelay intervalMs
                    (pollForResults_from getResults maxAttempts intervalMs (Suc attempt)))
      else \<lparr>outcome = Inl (ApiError ''Analysis timed out. Please try again.'' 408),
             fetchCount = 0, delays = []\<rparr>)"
  by pat_completeness auto
termination
  by (relation "measure (\<lambda>(g, maxAttempts, intervalMs, attempt). maxAttempts - attempt)") auto

declare pollForResults_from.simps [simp del]

text \<open>
  An outcome after which the loop sleeps and tries again: a body whose status is neither
  completed nor failed, or a throw that the \<^verbatim>\<open>catch\<close> block swallows.
\<close>

fun keepsWaiting :: "'f fetch_outcome \<Rightarrow> bool" where
  "keepsWaiting (Returned r) = (status r \<noteq> completed \<and> status r \<noteq> failed)"
| "keepsWaiting (Thrown err) = (\<not> rethrown err)"

text \<open>The default arguments: 60 attempts, 2000 ms apart.\<close>

definition pollForResults :: "(nat \<Rightarrow> 'f fetch_outcome) \<Rightarrow> 'f poll_run" where
  "pollForResults getResults = pollForResults_from getResults 60 2000 0"

section \<open>Export pagination (results page, handleExportPDF)\<close>

text \<open>
  Lengths are millimetres. The numbers of the script are modelled by exact rationals. The
  page size comes from the PDF library and is a parameter; for A4 portrait it is 210 by
  297. The captured image is taken to have a width that is not zero: there the script's
  division has no finite value, while the one of HOL is zero.
\<close>

definition margin :: rat where
  "margin = 10"

definition contentWidth :: "rat \<Rightarrow> rat" where
  "contentWidth pdfWidth = pdfWidth - (margin * 2)"

definition imgRenderHeight :: "rat \<Rightarrow> rat \<Rightarrow> rat \<Rightarrow> rat" where
  "imgRenderHeight imgHeight imgWidth pdfWidth = (imgHeight * contentWidth pdfWidth) / imgWidth"

text \<open>
  One \<^verbatim>\<open>addImage\<close> call: where the image is put on the current page and at which size.
  Every page of the document receives exactly one such call, so a document is the list of
  its pages' placements.
\<close>

record placement =
  img_x :: rat
  img_y :: rat
  img_w :: rat
  img_h :: rat

definition addImage :: "rat \<Rightarrow> rat \<Rightarrow> rat \<Rightarrow> placement" where
  "addImage pdfWidth position renderHeight =
     \<lparr>img_x = margin, img_y = position, img_w = contentWidth pdfWidth, img_h = renderHeight\<rparr>"

text \<open>
  The \<^verbatim>\<open>while (heightLeft > 0)\<close> loop: each round computes the position, adds a page and
  draws the image on it. With a page height that is not positive the loop does not end;
  the value is then \<^term>\<open>None\<close>.
\<close>

partial_function (option) addPages ::
  "rat \<Rightarrow> rat \<Rightarrow> rat \<Rightarrow> rat \<Rightarrow> placement list \<Rightarrow> placement list option" where
  "addPages pdfWidth pdfHeight renderHeight heightLeft pdf =
     (if heightLeft > 0 then
        addPages pdfWidth pdfHeight renderHeight (heightLeft - pdfHeight)
          (pdf @ [addImage pdfWidth (heightLeft - renderHeight + margin) renderHeight])
      else Some pdf)"

declare addPages.simps [code]

text \<open>Page 1 at the top margin, then the loop on what is left of the height.\<close>

definition composePages :: "rat \<Rightarrow> rat \<Rightarrow> rat \<Rightarrow> placement list option" where
  "composePages pdfWidth pdfHeight renderHeight =
     addPages pdfWidth pdfHeight renderHeight (renderHeight - (pdfHeight - margin * 2))
       [addImage pdfWidth margin renderHeight]"

text \<open>Every element of the list is the one before it minus \<^verbatim>\<open>d\<close>.\<close>

fun decreasesBy :: "rat \<Rightarrow> rat list \<Rightarrow> bool" where
  "decreasesBy d (a # b # rest) = (b = a - d \<and> decreasesBy d (b # rest))"
| "decreasesBy d rest = True"

text \<open>
  A row of the image, \<^verbatim>\<open>r\<close> below the image's top at its rendered size, drawn by a
  placement at vertical position \<^verbatim>\<open>y\<close>, lands at height \<^verbatim>\<open>y + r\<close> of the page; it is on
  the page when that lies between the page's top and its bottom.
\<close>

definition rowOnPage :: "rat \<Rightarrow> placement \<Rightarrow> rat \<Rightarrow> bool" where
  "rowOnPage pdfHeight p r = (0 \<le> img_y p + r \<and> img_y p + r \<le> pdfHeight)"

section \<open>The results page\<close>

datatype page_state = Loading | Ready | Error

text \<open>
  The React state of the page, the variables of the polling effect's closure
  (\<^verbatim>\<open>cancelled\<close>; \<^verbatim>\<open>timeout\<close>, the delay of the pending timer if there is one), and what
  the page does to
  the outside: whether a status fetch is awaited, how many were issued, the alerts shown
  and the files saved.
\<close>

record 'f results_page =
  state :: page_state
  result :: "'f analysis_result option"
  error :: "string option"
  pollCount :: nat
  isExporting :: bool
  perspective :: perspective
  chatOpen :: bool
  chatInitialQuestion :: "string option"
  cancelled :: bool
  timeout :: "nat option"
  inFlight :: bool
  fetches :: nat
  alerts :: "string list"
  saved :: "(string \<times> placement list) list"

definition initialPage :: "'f results_page" where
  "initialPage =
     \<lparr>state = Loading, result = None, error = None, pollCount = 0, isExporting = False,
      perspective = pm, chatOpen = False, chatInitialQuestion = None,
      cancelled = False, timeout = None, inFlight = False, fetches = 0,
      alerts = [], saved = []\<rparr>"

subsection \<open>Polling\<close>

text \<open>
  \<^verbatim>\<open>fetchResults\<close> from the point where the awaited \<^verbatim>\<open>getResults\<close> settles: the state
  updates it makes and the value it returns.
\<close>

definition fetchResults :: "'f fetch_outcome \<Rightarrow> 'f results_page \<Rightarrow> bool \<times> 'f results_page" where
  "fetchResults settled s =
     (case settled of
        Returned data \<Rightarrow>
          if status data = completed then (True, s\<lparr>result := Some data, state := Ready\<rparr>)
          else (False, s)
      | Thrown err \<Rightarrow>
          if isError err \<and> includes_sub (message_of err) ''still processing'' then (False, s)
          else (True, s\<lparr>error := Some (if isError err then message_of err
                                           else ''Failed to load results.''),
                         state := Error\<rparr>))"

text \<open>\<^verbatim>\<open>poll\<close> up to its \<^verbatim>\<open>await\<close>: unless cancelled, one status fetch is issued.\<close>

definition poll :: "'f results_page \<Rightarrow> 'f results_page" where
  "poll s = (if cancelled s then s else s\<lparr>inFlight := True, fetches := Suc (fetches s)\<rparr>)"

text \<open>\<^verbatim>\<open>poll\<close> after its \<^verbatim>\<open>await\<close>, when the fetch has settled.\<close>

definition pollResume :: "'f fetch_outcome \<Rightarrow> 'f results_page \<Rightarrow> 'f results_page" where
  "pollResume settled s =
     (case fetchResults settled (s\<lparr>inFlight := False\<rparr>) of
        (done, s') \<Rightarrow>
          if \<not> done \<and> \<not> cancelled s'
          then s'\<lparr>pollCount := pollCount s' + 1, timeout := Some 2000\<rparr>
          else s')"

text \<open>
  The effect body: fresh closure variables, then the first call of \<^verbatim>\<open>poll\<close>. The page
  record holds the closure variables of one run of the effect, so this is the first run on
  a page: a later run has variables of its own, next to those of an earlier run whose
  fetch may still be awaited, and is outside this model.
\<close>

definition mountPoll :: "'f results_page \<Rightarrow> 'f results_page" where
  "mountPoll s = poll (s\<lparr>cancelled := False, timeout := None\<rparr>)"

text \<open>The effect's cleanup: \<^verbatim>\<open>cancelled = true; clearTimeout(timeout)\<close>.\<close>

definition cleanup :: "'f results_page \<Rightarrow> 'f results_page" where
  "cleanup s = s\<lparr>cancelled := True, timeout := None\<rparr>"

text \<open>
  What can happen to a mounted poll: the awaited fetch settles, the 2000 ms timer fires,
  the cleanup runs. A fetch can only settle while one is awaited and a timer can only fire
  while one is pending; elsewhere the event does not occur and the state stays.
\<close>

datatype 'f poll_event = FetchSettles "'f fetch_outcome" | TimerFires | Cleanup

fun pollStep :: "'f results_page \<Rightarrow> 'f poll_event \<Rightarrow> 'f results_page" where
  "pollStep s (FetchSettles settled) = (if inFlight s then pollResume settled s else s)"
| "pollStep s TimerFires = (if timeout s \<noteq> None then poll (s\<lparr>timeout := None\<rparr>) else s)"
| "pollStep s Cleanup = cleanup s"

definition pollRun :: "'f results_page \<Rightarrow> 'f poll_event list \<Rightarrow> 'f results_page" where
  "pollRun s evs = foldl pollStep s evs"

text \<open>A result payload with a given status, for concrete runs.\<close>

definition payload :: "job_status \<Rightarrow> unit analysis_result" where
  "payload st =
     \<lparr>jobId = ''job-1'', status = st, problemSummary = ''summary'', quantEvidence = [],
      qualEvidence = [], actions = [], abTests = [], metrics = [],
      financialImpact = None, suggestedQuestions = None, generatedAt = ''2025-01-01''\<rparr>"

subsection \<open>Export\<close>

text \<open>
  What the export meets outside the page: whether the report element is attached, how
  \<^verbatim>\<open>html2canvas\<close> settles (it throws, or yields an image of some height and width), the
  page size of the PDF library, whether a call of the composition (encoding the image,
  creating the document, reading the image properties, adding an image or a page) throws,
  and whether \<^verbatim>\<open>save\<close> throws.
\<close>

datatype capture_outcome = CaptureThrows | Captured rat rat

record export_env =
  refAttached :: bool
  capture :: capture_outcome
  pageWidth :: rat
  pageHeight :: rat
  composeThrows :: bool
  saveThrows :: bool

text \<open>
  The \<^verbatim>\<open>catch\<close> block followed by the \<^verbatim>\<open>finally\<close> block (the console message is left
  out).
\<close>

definition exportFailed :: "'f results_page \<Rightarrow> 'f results_page" where
  "exportFailed s =
     s\<lparr>alerts := alerts s @ [''Failed to generate PDF. Please try again.''],
       isExporting := False\<rparr>"

definition handleExportPDF ::
  "export_env \<Rightarrow> string \<Rightarrow> 'f results_page \<Rightarrow> 'f results_page option" where
  "handleExportPDF env jid s =
     (if \<not> refAttached env then Some s
      else
        let s1 = s\<lparr>isExporting := True\<rparr> in
        (case capture env of
           CaptureThrows \<Rightarrow> Some (exportFailed s1)
         | Captured imgHeight imgWidth \<Rightarrow>
             if composeThrows env then Some (exportFailed s1)
             else
               (case composePages (pageWidth env) (pageHeight env)
                       (imgRenderHeight imgHeight imgWidth (pageWidth env)) of
                  None \<Rightarrow> None
                | Some pdf \<Rightarrow>
                    if saveThrows env then Some (exportFailed s1)
                    else Some (s1\<lparr>saved := saved s1
                                   @ [(''Normate-Analysis-'' @ jid @ ''.pdf'', pdf)],
                                  isExporting := False\<rparr>))))"

section \<open>The chat sidebar\<close>

datatype role = user | assistant

record message =
  role :: role
  content :: string

text \<open>
  The state of one mounted sidebar: the React state, the \<^verbatim>\<open>hasHandledInitial\<close> ref, and
  two logs of what it does: the questions passed to \<^verbatim>\<open>chatWithAnalysis\<close> and the calls of
  \<^verbatim>\<open>sendMessage\<close> made by the initial-question effect.
\<close>

record chat_sidebar =
  messages :: "message list"
  input :: string
  loading :: bool
  hasHandledInitial :: bool
  requests :: "string list"
  initialSends :: "string list"

definition introMessage :: message where
  "introMessage =
     \<lparr>role = assistant,
      content = ''I can help you explore this analysis further. Ask me anything about the findings, methodology, or next steps.''\<rparr>"

definition fallbackMessage :: message where
  "fallbackMessage =
     \<lparr>role = assistant,
      content = ''Sorry, I couldn't process that request. Please try again in a moment.''\<rparr>"

definition initialChat :: chat_sidebar where
  "initialChat =
     \<lparr>messages = [introMessage], input = [], loading = False, hasHandledInitial = False,
      requests = [], initialSends = []\<rparr>"

text \<open>
  \<^verbatim>\<open>sendMessage\<close> up to its \<^verbatim>\<open>await\<close>. The guard reads the current value of
  \<^verbatim>\<open>loading\<close>.
\<close>

definition sendMessage :: "string \<Rightarrow> chat_sidebar \<Rightarrow> chat_sidebar" where
  "sendMessage text s =
     (if trim text = [] \<or> loading s then s
      else s\<lparr>messages := messages s @ [\<lparr>role = user, content = text\<rparr>],
             input := [],
             loading := True,
             requests := requests s @ [text]\<rparr>)"

text \<open>
  \<^verbatim>\<open>sendMessage\<close> after its \<^verbatim>\<open>await\<close>: the request resolved with a message, or it was
  rejected; then the \<^verbatim>\<open>finally\<close> block.
\<close>

datatype chat_outcome = Resolved string | Rejected

fun reply :: "chat_outcome \<Rightarrow> message" where
  "reply (Resolved m) = \<lparr>role = assistant, content = m\<rparr>"
| "reply Rejected = fallbackMessage"

definition sendMessageResume :: "chat_outcome \<Rightarrow> chat_sidebar \<Rightarrow> chat_sidebar" where
  "sendMessageResume settled s = s\<lparr>messages := messages s @ [reply settled], loading := False\<rparr>"

text \<open>
  The initial-question effect, run with the current props. A string is truthy when it is
  present and not empty.
\<close>

definition initialQuestionEffect :: "string option \<Rightarrow> bool \<Rightarrow> chat_sidebar \<Rightarrow> chat_sidebar" where
  "initialQuestionEffect initialQuestion isOpen s =
     (case initialQuestion of
        None \<Rightarrow> s
      | Some q \<Rightarrow>
          if q \<noteq> [] \<and> isOpen \<and> \<not> hasHandledInitial s
          then sendMessage q
                 (s\<lparr>hasHandledInitial := True, initialSends := initialSends s @ [q]\<rparr>)
          else s)"

text \<open>
  What can happen to a mounted sidebar: the initial-question effect runs with some props,
  the user edits the input, \<^verbatim>\<open>handleSend\<close> is called, the awaited chat request settles
  (only while one is awaited, which is exactly while \<^verbatim>\<open>loading\<close> is set).
\<close>

datatype chat_event =
  EffectRuns "string option" bool | SetInput string | HandleSend | ChatSettles chat_outcome

fun chatStep :: "chat_sidebar \<Rightarrow> chat_event \<Rightarrow> chat_sidebar" where
  "chatStep s (EffectRuns initialQuestion isOpen) = initialQuestionEffect initialQuestion isOpen s"
| "chatStep s (SetInput t) = s\<lparr>input := t\<rparr>"
| "chatStep s HandleSend = sendMessage (input s) s"
| "chatStep s (ChatSettles settled) = (if loading s then sendMessageResume settled s else s)"

definition chatRun :: "chat_sidebar \<Rightarrow> chat_event list \<Rightarrow> chat_sidebar" where
  "chatRun s evs = foldl chatStep s evs"



section \<open>Theorems: perspective-based visibility\<close>

lemma perspective_cases: "p = pm \<or> p = cfo \<or> p = designer"
  by (cases p) simp_all

text \<open>
  C4. For every result and every perspective the rendered cards follow the fixed table:
  quantitative evidence and metrics for pm and cfo, qualitative evidence and A/B tests for
  pm and designer, financial impact for pm and cfo and only when the field is present,
  problem summary and actions always, suggested questions exactly when the result carries
  a non-empty list, whatever the perspective.
\<close>

theorem visibility_table:
  "(QuantEvidenceCard \<in> set (reportSections r p)) = (p \<in> {pm, cfo})
   \<and> (QualEvidenceCard \<in> set (reportSections r p)) = (p \<in> {pm, designer})
   \<and> (ABTestCard \<in> set (reportSections r p)) = (p \<in> {pm, designer})
   \<and> (MetricsCard \<in> set (reportSections r p)) = (p \<in> {pm, cfo})
   \<and> (FinancialImpactCard \<in> set (reportSections r p))
       = (p \<in> {pm, cfo} \<and> financialImpact r \<noteq> None)
   \<and> ProblemSummaryCard \<in> set (reportSections r p)
   \<and> ActionsCard \<in> set (reportSections r p)
   \<and> (RecommendedQuestions \<in> set (reportSections r p))
       = (\<exists>qs. suggestedQuestions r = Some qs \<and> qs \<noteq> [])
   \<and> showFinancial (Some r) p = (p \<in> {pm, cfo} \<and> financialImpact r \<noteq> None)
   \<and> showQuantEvidence p = (p \<in> {pm, cfo})
   \<and> showQualEvidence p = (p \<in> {pm, designer})
   \<and> showABTests p = (p \<in> {pm, designer})
   \<and> showMetrics p = (p \<in> {pm, cfo})
   \<and> showRecommendedQuestions (Some r) = (\<exists>qs. suggestedQuestions r = Some qs \<and> qs \<noteq> [])"
  by (cases p; cases "financialImpact r"; cases "suggestedQuestions r")
     (auto simp: reportSections_def showFinancial_def showABTests_def showMetrics_def
        showQuantEvidence_def showQualEvidence_def showRecommendedQuestions_def)


section \<open>Theorems: export pagination\<close>

lemma addPages_closed:
  assumes "pdfHeight > 0"
  shows "nat \<lceil>heightLeft / pdfHeight\<rceil> = n \<Longrightarrow>
     addPages pdfWidth pdfHeight H heightLeft pdf =
       Some (pdf @ map (\<lambda>k. addImage pdfWidth (heightLeft - of_nat k * pdfHeight - H + margin) H) [0..<n])"
proof (induction n arbitrary: heightLeft pdf)
  case 0
  then have "\<lceil>heightLeft / pdfHeight\<rceil> \<le> 0" by simp
  then have "heightLeft / pdfHeight \<le> 0" by (simp add: ceiling_le_zero)
  with assms have "\<not> heightLeft > 0" by (simp add: divide_le_0_iff)
  then show ?case by (subst addPages.simps) simp
next
  case (Suc n)
  then have pos: "heightLeft > 0"
    using assms by (cases "heightLeft > 0") (auto simp: not_less divide_le_0_iff ceiling_le_zero dest!: )
  have "(heightLeft - pdfHeight) / pdfHeight = heightLeft / pdfHeight - 1"
    using assms by (simp add: diff_divide_distrib)
  then have "nat \<lceil>(heightLeft - pdfHeight) / pdfHeight\<rceil> = n"
    using Suc.prems by simp
  from Suc.IH[OF this] pos show ?case
    apply (subst addPages.simps)
    apply (simp add: upt_conv_Cons del: upt_Suc)
    apply (simp add: map_Suc_upt[symmetric] comp_def algebra_simps del: upt_Suc)
    done
qed




lemma composePages_closed:
  assumes "pdfHeight > 0"
  shows "composePages pdfWidth pdfHeight H =
     Some (addImage pdfWidth margin H #
       map (\<lambda>k. addImage pdfWidth (margin - (pdfHeight - margin * 2) - of_nat k * pdfHeight) H)
         [0..<nat \<lceil>(H - (pdfHeight - margin * 2)) / pdfHeight\<rceil>])"
  unfolding composePages_def
  by (simp add: addPages_closed[OF assms refl] algebra_simps)

lemma extra_pages_none:
  assumes "(pdfHeight::rat) > 0" "H \<le> U"
  shows "nat \<lceil>(H - U) / pdfHeight\<rceil> = 0"
proof -
  have "(H - U) / pdfHeight \<le> 0" using assms by (simp add: divide_le_0_iff)
  then show ?thesis by (simp add: ceiling_le_zero)
qed

lemma extra_pages_two:
  assumes "pdfHeight > 6 * margin"
  shows "nat \<lceil>(5 / 2 * (pdfHeight - margin * 2) - (pdfHeight - margin * 2)) / pdfHeight\<rceil> = 2"
proof -
  let ?q = "(5 / 2 * (pdfHeight - margin * 2) - (pdfHeight - margin * 2)) / pdfHeight"
  from assms have P: "pdfHeight > 60" by (simp add: margin_def)
  have q: "?q = 3 / 2 - 30 / pdfHeight" using P by (simp add: field_simps margin_def)
  have "30 / pdfHeight < 1 / 2" using P by (simp add: field_simps)
  moreover have "30 / pdfHeight > 0" using P by simp
  ultimately have "1 < ?q" "?q \<le> 2" unfolding q by linarith+
  then have "\<lceil>?q\<rceil> = 2" by (simp add: ceiling_eq_iff)
  then show ?thesis by simp
qed

text \<open>
  The page counts: with a page higher than six margins (A4: 297 against 60) the loop ends,
  one page is produced when the rendered height is at most the usable page height, and
  three pages when it is 2.5 times the usable page height.
\<close>

lemma composePages_page_counts:
  assumes "pdfHeight > 6 * margin"
  shows "\<exists>pages. composePages pdfWidth pdfHeight H = Some pages
     \<and> (H \<le> pdfHeight - margin * 2 \<longrightarrow> length pages = 1)
     \<and> (H = 5 / 2 * (pdfHeight - margin * 2) \<longrightarrow> length pages = 3)"
proof -
  from assms have P0: "pdfHeight > 0" by (simp add: margin_def)
  define n where "n = nat \<lceil>(H - (pdfHeight - margin * 2)) / pdfHeight\<rceil>"
  define pages where "pages = addImage pdfWidth margin H #
       map (\<lambda>k. addImage pdfWidth (margin - (pdfHeight - margin * 2) - of_nat k * pdfHeight) H) [0..<n]"
  have c: "composePages pdfWidth pdfHeight H = Some pages"
    unfolding pages_def n_def by (rule composePages_closed[OF P0])
  have len: "length pages = 1 + n" by (simp add: pages_def)
  have one: "H \<le> pdfHeight - margin * 2 \<longrightarrow> length pages = 1"
    using extra_pages_none[OF P0] by (simp add: len n_def)
  have three: "H = 5 / 2 * (pdfHeight - margin * 2) \<longrightarrow> length pages = 3"
  proof
    assume "H = 5 / 2 * (pdfHeight - margin * 2)"
    then have "n = 2" unfolding n_def by (simp only: extra_pages_two[OF assms])
    then show "length pages = 3" by (simp add: len)
  qed
  from c one three show ?thesis by blast
qed

text \<open>
  C5, the offsets. For A4 and a rendered height of 2.5 usable page heights (692.5) the
  three pages carry the image at the offsets 10, -267, -564: the first step is 277 (the
  usable height), the second 297 (the page height), so the offsets do not go down by one
  page height on each page. The uneven first step shows in the output: row 277 of the
  image is drawn both on page 1 and on page 2, and for a rendered height of 570 the two
  pages have the offsets 10 and -267 and row 567 of the image is on neither of them.
\<close>

theorem export_pagination_uneven_steps:
  "composePages 210 297 (5 / 2 * (297 - margin * 2)) =
       Some [addImage 210 10 (1385 / 2), addImage 210 (- 267) (1385 / 2),
             addImage 210 (- 564) (1385 / 2)]
   \<and> map img_y [addImage 210 10 (1385 / 2), addImage 210 (- 267) (1385 / 2),
                 addImage 210 (- 564) (1385 / 2)] = [10, - 267, - 564]
   \<and> \<not> decreasesBy 297 [10, - 267, - 564]
   \<and> \<not> decreasesBy (297 - margin * 2) [10, - 267, - 564]
   \<and> rowOnPage 297 (addImage 210 10 (1385 / 2)) 277
   \<and> rowOnPage 297 (addImage 210 (- 267) (1385 / 2)) 277
   \<and> composePages 210 297 570 = Some [addImage 210 10 570, addImage 210 (- 267) 570]
   \<and> \<not> rowOnPage 297 (addImage 210 10 570) 567
   \<and> \<not> rowOnPage 297 (addImage 210 (- 267) 570) 567"
  by (simp add: composePages_def addPages.simps margin_def addImage_def rowOnPage_def)

section \<open>Theorems: polling\<close>

lemma pollRun_append: "pollRun s (xs @ ys) = pollRun (pollRun s xs) ys"
  by (simp add: pollRun_def)

lemma concat_replicate_Suc: "concat (replicate (Suc n) r) = concat (replicate n r) @ r"
  by (induction n) simp_all

lemma processing_round:
  assumes "inFlight s" "\<not> cancelled s"
  shows "pollRun s [FetchSettles (Returned (payload processing)), TimerFires]
     = s\<lparr>pollCount := pollCount s + 1, timeout := None, inFlight := True,
          fetches := Suc (fetches s)\<rparr>"
  using assms
  by (simp add: pollRun_def pollResume_def fetchResults_def poll_def payload_def)

lemma page_poll_unbounded:
  "pollRun (mountPoll initialPage)
      (concat (replicate n [FetchSettles (Returned (payload processing)), TimerFires]))
   = (initialPage :: unit results_page)\<lparr>pollCount := n, inFlight := True, fetches := Suc n\<rparr>"
proof (induction n)
  case 0
  show ?case by (simp add: pollRun_def mountPoll_def poll_def initialPage_def)
next
  case (Suc n)
  show ?case
    unfolding concat_replicate_Suc pollRun_append Suc.IH
    by (subst processing_round) (simp_all add: initialPage_def)
qed

text \<open>
  C1, on the results page. The page's own poll has no attempt budget: when the first 60
  status fetches all answer \<^verbatim>\<open>processing\<close>, a 61st fetch is issued, the page is
  still loading and no error is set. (\<^verbatim>\<open>pollForResults\<close> does stop after 60
  fetches with the time-out error, see \<open>pollForResults_at_most_60\<close> and
  \<open>pollForResults_from_timeout\<close>; the page does not call it.)
\<close>

theorem page_poll_issues_61st_fetch:
  "fetches (pollRun (mountPoll (initialPage :: unit results_page))
      (concat (replicate 60 [FetchSettles (Returned (payload processing)), TimerFires]))) = 61
   \<and> state (pollRun (mountPoll (initialPage :: unit results_page))
      (concat (replicate 60 [FetchSettles (Returned (payload processing)), TimerFires]))) = Loading
   \<and> error (pollRun (mountPoll (initialPage :: unit results_page))
      (concat (replicate 60 [FetchSettles (Returned (payload processing)), TimerFires]))) = None"
  unfolding page_poll_unbounded by (simp add: initialPage_def)

lemma pollForResults_from_bounded:
  "fetchCount (pollForResults_from g maxAttempts intervalMs attempt) \<le> maxAttempts - attempt"
proof (induction g maxAttempts intervalMs attempt rule: pollForResults_from.induct)
  case (1 g maxAttempts intervalMs attempt)
  show ?case
  proof (cases "attempt < maxAttempts")
    case False
    then show ?thesis by (subst pollForResults_from.simps) simp
  next
    case True
    then show ?thesis
      using 1
      apply (subst pollForResults_from.simps)
      apply (auto simp: stopWith_def afterDelay_def split: fetch_outcome.splits)
      done
  qed
qed

lemma pollForResults_at_most_60: "fetchCount (pollForResults g) \<le> 60"
  using pollForResults_from_bounded[of g 60 2000 0] by (simp add: pollForResults_def)

lemma pollForResults_from_timeout:
  assumes "\<And>k. attempt \<le> k \<Longrightarrow> k < maxAttempts \<Longrightarrow> keepsWaiting (g k)"
  shows "pollForResults_from g maxAttempts intervalMs attempt =
    \<lparr>outcome = Inl (ApiError ''Analysis timed out. Please try again.'' 408),
     fetchCount = maxAttempts - attempt, delays = replicate (maxAttempts - attempt) intervalMs\<rparr>"
  using assms
proof (induction g maxAttempts intervalMs attempt rule: pollForResults_from.induct)
  case (1 g maxAttempts intervalMs attempt)
  show ?case
  proof (cases "attempt < maxAttempts")
    case False
    then show ?thesis by (subst pollForResults_from.simps) simp
  next
    case True
    then have kw: "keepsWaiting (g attempt)" using "1.prems" by simp
    have rest: "\<And>k. Suc attempt \<le> k \<Longrightarrow> k < maxAttempts \<Longrightarrow> keepsWaiting (g k)"
      using "1.prems" by simp
    have sub: "maxAttempts - attempt = Suc (maxAttempts - Suc attempt)" using True by simp
    show ?thesis
    proof (cases "g attempt")
      case (Returned r)
      with kw have st: "status r \<noteq> completed" "status r \<noteq> failed" by simp_all
      from "1.IH"(1)[OF True Returned _ _ rest] st True Returned show ?thesis
        apply (subst pollForResults_from.simps)
        apply (simp add: afterDelay_def sub)
        done
    next
      case (Thrown err)
      with kw have nr: "\<not> rethrown err" by simp
      from "1.IH"(2)[OF True Thrown nr rest] True Thrown nr show ?thesis
        apply (subst pollForResults_from.simps)
        apply (simp add: afterDelay_def sub)
        done
    qed
  qed
qed

lemma pollForResults_failed:
  "pollForResults (\<lambda>k. Returned (payload failed)) =
     \<lparr>outcome = Inl (ApiError ''Analysis failed on the server.'' 500), fetchCount = 1, delays = []\<rparr>"
  by (simp add: pollForResults_def payload_def stopWith_def pollForResults_from.simps[of _ 60 2000 0])

text \<open>
  C2, on the results page. When the first status fetch returns a body whose status is
  \<^verbatim>\<open>failed\<close>, the page stays in the loading phase with no error, a timer is
  pending, and when it fires a second fetch is issued. (\<^verbatim>\<open>pollForResults\<close> stops
  at once on that body, see \<open>pollForResults_failed\<close>.)
\<close>

theorem page_poll_ignores_failed_status:
  "state (pollRun (mountPoll (initialPage :: unit results_page))
            [FetchSettles (Returned (payload failed))]) = Loading
   \<and> error (pollRun (mountPoll (initialPage :: unit results_page))
            [FetchSettles (Returned (payload failed))]) = None
   \<and> timeout (pollRun (mountPoll (initialPage :: unit results_page))
            [FetchSettles (Returned (payload failed))]) = Some 2000
   \<and> fetches (pollRun (mountPoll (initialPage :: unit results_page))
            [FetchSettles (Returned (payload failed)), TimerFires]) = 2"
  by (simp add: pollRun_def mountPoll_def poll_def initialPage_def pollResume_def
      fetchResults_def payload_def)

text \<open>
  C3, on the results page. A fetch that is awaited when the cleanup runs still updates
  the page when it settles: a completed body sets the result and the ready phase, a
  failure sets the error and the error phase. (No fetch is issued and the attempt counter
  does not move after the cleanup, see \<open>cancelled_run\<close>.)
\<close>

theorem page_poll_update_after_cleanup:
  "cancelled (pollRun (mountPoll (initialPage :: unit results_page)) [Cleanup])
   \<and> inFlight (pollRun (mountPoll (initialPage :: unit results_page)) [Cleanup])
   \<and> state (pollRun (mountPoll (initialPage :: unit results_page)) [Cleanup]) = Loading
   \<and> result (pollRun (mountPoll (initialPage :: unit results_page)) [Cleanup]) = None
   \<and> state (pollRun (mountPoll (initialPage :: unit results_page))
        [Cleanup, FetchSettles (Returned (payload completed))]) = Ready
   \<and> result (pollRun (mountPoll (initialPage :: unit results_page))
        [Cleanup, FetchSettles (Returned (payload completed))]) = Some (payload completed)
   \<and> state (pollRun (mountPoll (initialPage :: unit results_page))
        [Cleanup, FetchSettles (Thrown (ApiError ''Job not found'' 404))]) = Error
   \<and> error (pollRun (mountPoll (initialPage :: unit results_page))
        [Cleanup, FetchSettles (Thrown (ApiError ''Job not found'' 404))]) = Some ''Job not found''"
  by (simp add: pollRun_def mountPoll_def poll_def initialPage_def pollResume_def
      fetchResults_def payload_def cleanup_def)

lemma cancelled_step:
  assumes "cancelled s"
  shows "cancelled (pollStep s e) \<and> fetches (pollStep s e) = fetches s
     \<and> pollCount (pollStep s e) = pollCount s"
  using assms
  by (cases e)
     (auto simp: pollResume_def fetchResults_def poll_def cleanup_def
        split: fetch_outcome.splits prod.splits if_splits)

lemma cancelled_run:
  assumes "cancelled s"
  shows "cancelled (pollRun s evs) \<and> fetches (pollRun s evs) = fetches s
     \<and> pollCount (pollRun s evs) = pollCount s"
proof (induction evs rule: rev_induct)
  case Nil
  show ?case using assms by (simp add: pollRun_def)
next
  case (snoc e evs)
  then show ?case using cancelled_step[of "pollRun s evs" e] by (simp add: pollRun_def)
qed

section \<open>Theorems: the chat sidebar\<close>

lemma chatRun_snoc: "chatRun s (evs @ [e]) = chatStep (chatRun s evs) e"
  by (simp add: chatRun_def)

lemma chatRun_Nil: "chatRun s [] = s"
  by (simp add: chatRun_def)

lemma trim_empty_iff: "trim s = [] \<longleftrightarrow> (\<forall>c \<in> set s. isWhiteSpace c)"
proof
  assume "trim s = []"
  then have "\<forall>c \<in> set (dropWhile isWhiteSpace s). isWhiteSpace c"
    by (simp add: trim_def dropWhile_eq_Nil_conv)
  then have "dropWhile isWhiteSpace s = []"
    by (metis hd_dropWhile hd_in_set)
  then show "\<forall>c \<in> set s. isWhiteSpace c"
    by (simp add: dropWhile_eq_Nil_conv)
next
  assume "\<forall>c \<in> set s. isWhiteSpace c"
  then have d: "dropWhile isWhiteSpace s = []" by (simp add: dropWhile_eq_Nil_conv)
  show "trim s = []" unfolding trim_def d by simp
qed

lemma sendMessage_keeps_initial:
  "hasHandledInitial (sendMessage t s) = hasHandledInitial s"
  "initialSends (sendMessage t s) = initialSends s"
  by (simp_all add: sendMessage_def)

lemma initial_inv_step:
  assumes "if hasHandledInitial s then length (initialSends s) \<le> 1 else initialSends s = []"
  shows "if hasHandledInitial (chatStep s e) then length (initialSends (chatStep s e)) \<le> 1
         else initialSends (chatStep s e) = []"
  using assms
  by (cases e)
     (auto simp: initialQuestionEffect_def sendMessage_keeps_initial sendMessageResume_def
        split: option.splits if_splits)

lemma initial_inv_run:
  "if hasHandledInitial (chatRun initialChat evs)
   then length (initialSends (chatRun initialChat evs)) \<le> 1
   else initialSends (chatRun initialChat evs) = []"
proof (induction evs rule: rev_induct)
  case Nil
  show ?case by (simp add: chatRun_Nil initialChat_def)
next
  case (snoc e evs)
  show ?case unfolding chatRun_snoc by (rule initial_inv_step[OF snoc])
qed

text \<open>
  C6. Over the whole life of a mounted sidebar, whatever the events (the effect running
  again with any props, sends, settled requests), the initial-question effect calls
  \<^verbatim>\<open>sendMessage\<close> at most once.
\<close>

theorem initial_question_sent_at_most_once:
  "length (initialSends (chatRun initialChat evs)) \<le> 1"
  using initial_inv_run[of evs] by (simp split: if_splits)

text \<open>
  C7. A send with a text made only of white space (the empty text included), or while a
  request is awaited, changes nothing: the whole state of the sidebar, the transcript and
  the log of issued requests included, is the one before.
\<close>

theorem send_guard_is_noop:
  assumes "(\<forall>c \<in> set text. isWhiteSpace c) \<or> loading s"
  shows "sendMessage text s = s"
  using assms by (auto simp: sendMessage_def trim_empty_iff)

theorem send_guard_is_noop_witness:
  "sendMessage [] initialChat = initialChat
   \<and> sendMessage ''  '' initialChat = initialChat
   \<and> sendMessage ''again'' (sendMessage ''hello'' initialChat) = sendMessage ''hello'' initialChat"
proof -
  have a: "(\<forall>c \<in> set []. isWhiteSpace c) \<or> loading initialChat" by simp
  have b: "(\<forall>c \<in> set ''  ''. isWhiteSpace c) \<or> loading initialChat"
    by (simp add: isWhiteSpace_def)
  have c: "(\<forall>c \<in> set ''again''. isWhiteSpace c) \<or> loading (sendMessage ''hello'' initialChat)"
    by (simp add: sendMessage_def trim_def isWhiteSpace_def initialChat_def)
  from send_guard_is_noop[OF a] send_guard_is_noop[OF b] send_guard_is_noop[OF c]
  show ?thesis by simp
qed

text \<open>
  C8. When an accepted send's request is rejected, the fixed fallback message of the
  assistant is the one message appended, no further request is issued, and the loading
  flag is cleared, so that the next send with a non-blank text is accepted and issues its
  request.
\<close>

theorem failed_request_fallback:
  assumes "trim text \<noteq> []" and "\<not> loading s"
  shows "messages (chatStep (sendMessage text s) (ChatSettles Rejected))
           = messages (sendMessage text s) @ [fallbackMessage]
       \<and> fallbackMessage = \<lparr>role = assistant,
            content = ''Sorry, I couldn't process that request. Please try again in a moment.''\<rparr>
       \<and> requests (sendMessage text s) = requests s @ [text]
       \<and> requests (chatStep (sendMessage text s) (ChatSettles Rejected))
           = requests (sendMessage text s)
       \<and> \<not> loading (chatStep (sendMessage text s) (ChatSettles Rejected))
       \<and> (\<forall>t. trim t \<noteq> [] \<longrightarrow>
            requests (sendMessage t (chatStep (sendMessage text s) (ChatSettles Rejected)))
              = requests s @ [text, t])"
  using assms
  by (simp add: sendMessage_def sendMessageResume_def fallbackMessage_def)

theorem failed_request_fallback_witness:
  "trim ''why?'' \<noteq> [] \<and> \<not> loading initialChat
   \<and> messages (chatStep (sendMessage ''why?'' initialChat) (ChatSettles Rejected))
       = [introMessage, \<lparr>role = user, content = ''why?''\<rparr>, fallbackMessage]
   \<and> requests (chatStep (sendMessage ''why?'' initialChat) (ChatSettles Rejected)) = [''why?'']
   \<and> \<not> loading (chatStep (sendMessage ''why?'' initialChat) (ChatSettles Rejected))"
proof -
  have a: "trim ''why?'' \<noteq> []" by (simp add: trim_def isWhiteSpace_def)
  have b: "\<not> loading initialChat" by (simp add: initialChat_def)
  from failed_request_fallback[OF a b] a b show ?thesis
    by (simp add: sendMessage_def initialChat_def)
qed














section \<open>Theorems: export failure\<close>

text \<open>
  C9. When the report element is attached and the capture or the composition throws, the
  export ends with one alert shown, no file saved, the exporting flag back to false and
  every other part of the page state (phase, result, error, attempt counter) as before.
\<close>

theorem export_failure:
  assumes "refAttached env" and "capture env = CaptureThrows \<or> composeThrows env"
  shows "handleExportPDF env jid s =
           Some (s\<lparr>alerts := alerts s @ [''Failed to generate PDF. Please try again.''],
                   isExporting := False\<rparr>)
     \<and> (\<exists>s'. handleExportPDF env jid s = Some s'
          \<and> alerts s' = alerts s @ [''Failed to generate PDF. Please try again.'']
          \<and> saved s' = saved s
          \<and> state s' = state s \<and> result s' = result s
          \<and> error s' = error s \<and> pollCount s' = pollCount s
          \<and> \<not> isExporting s')"
  using assms
  by (cases "capture env") (auto simp: handleExportPDF_def exportFailed_def Let_def)

theorem export_failure_witness:
  "handleExportPDF
      \<lparr>refAttached = True, capture = CaptureThrows, pageWidth = 210, pageHeight = 297,
       composeThrows = False, saveThrows = False\<rparr>
      ''job-1''
      ((initialPage :: unit results_page)\<lparr>state := Ready, result := Some (payload completed)\<rparr>)
    = Some ((initialPage :: unit results_page)
         \<lparr>state := Ready, result := Some (payload completed),
          alerts := [''Failed to generate PDF. Please try again.'']\<rparr>)
   \<and> handleExportPDF
      \<lparr>refAttached = True, capture = Captured 1385 380, pageWidth = 210, pageHeight = 297,
       composeThrows = True, saveThrows = False\<rparr>
      ''job-1''
      ((initialPage :: unit results_page)\<lparr>state := Ready, result := Some (payload completed)\<rparr>)
    = Some ((initialPage :: unit results_page)
         \<lparr>state := Ready, result := Some (payload completed),
          alerts := [''Failed to generate PDF. Please try again.'']\<rparr>)"
proof -
  let ?e1 = "\<lparr>refAttached = True, capture = CaptureThrows, pageWidth = 210, pageHeight = 297,
       composeThrows = False, saveThrows = False\<rparr>"
  let ?e2 = "\<lparr>refAttached = True, capture = Captured 1385 380, pageWidth = 210, pageHeight = 297,
       composeThrows = True, saveThrows = False\<rparr>"
  have a1: "refAttached ?e1" and b1: "capture ?e1 = CaptureThrows \<or> composeThrows ?e1" by simp_all
  have a2: "refAttached ?e2" and b2: "capture ?e2 = CaptureThrows \<or> composeThrows ?e2" by simp_all
  let ?s = "(initialPage :: unit results_page)\<lparr>state := Ready, result := Some (payload completed)\<rparr>"
  from export_failure[OF a1 b1, of "''job-1''" ?s] export_failure[OF a2 b2, of "''job-1''" ?s]
  show ?thesis by (simp add: initialPage_def)
qed

lemma export_saves_three_pages:
  "handleExportPDF
      \<lparr>refAttached = True, capture = Captured 1385 380, pageWidth = 210, pageHeight = 297,
       composeThrows = False, saveThrows = False\<rparr>
      ''job-1''
      ((initialPage :: unit results_page)\<lparr>state := Ready, result := Some (payload completed)\<rparr>)
    = Some ((initialPage :: unit results_page)
         \<lparr>state := Ready, result := Some (payload completed),
          saved := [(''Normate-Analysis-job-1.pdf'',
                     [addImage 210 10 (1385 / 2), addImage 210 (- 267) (1385 / 2),
                      addImage 210 (- 564) (1385 / 2)])]\<rparr>)"
  by (simp add: handleExportPDF_def imgRenderHeight_def contentWidth_def composePages_def
      addPages.simps margin_def initialPage_def)

end
